theory Spec2Isabelle
  imports Main "HOL-Library.Word" "HOL-Library.Sublist" "HOL-Library.AList"
begin

unbundle bit_operations_syntax

section \<open>Values of the protocol engine\<close>

text \<open>
  The engine (\<^verbatim>\<open>MTProto\<close>, package gogram) and the client built on it (\<^verbatim>\<open>Client\<close>,
  package telegram) are embedded as state-passing functions. Everything the Go code
  obtains from outside (the transport, the session store, the clock, the server) is an
  explicit script inside the state: a list of outcomes, consumed one per call.
\<close>

subsection \<open>Decoded objects and inbound messages\<close>

text \<open>The objects the code switches on. An inbound message (\<^verbatim>\<open>messages.Common\<close>) carries
  its id, its sequence number and its payload; the payload is represented by what
  \<^verbatim>\<open>tl.DecodeUnknownObject\<close> makes of it: the decoder's error text or the object.\<close>

datatype tl_object =
    MessageContainer "common list"
  | BadServerSalt "64 word"
  | NewSessionCreated "64 word"
  | Pong
  | MsgsAck "int list"
  | BadMsgNotification int
  | RpcResult int tl_object
  | GzipPacked tl_object
  | RpcError int string
  | ErrorSessionConfigsChanged
  | PingParams int
  | Null
  | Other string
and common = Common (GetMsgID: int) (GetSeqNo: "32 word") (GetMsg: "string + tl_object")

subsection \<open>Errors\<close>

text \<open>Go's \<^verbatim>\<open>any\<close> in \<^verbatim>\<open>ErrResponseCode.AdditionalInfo\<close>: nil, an \<^verbatim>\<open>int\<close> (64 bit), or
  a value of some other dynamic type.\<close>

datatype any_value = NoValue | IntValue "64 word" | OtherValue

record ErrResponseCode =
  Code :: int
  Message :: string
  Description :: string
  AdditionalInfo :: any_value

text \<open>The error values the code tells apart by identity (\<^verbatim>\<open>switch err\<close>), by dynamic
  type (\<^verbatim>\<open>err.(transport.ErrCode)\<close>) or by text (\<^verbatim>\<open>strings.Contains(err.Error(), ...)\<close>).
  \<open>Wrap msg e\<close> is both \<^verbatim>\<open>errors.Wrap(e, msg)\<close> and \<^verbatim>\<open>fmt.Errorf(msg + ": %w", e)\<close>.\<close>

datatype go_error =
    Canceled
  | EOF
  | ErrCode int
  | ResponseCode ErrResponseCode
  | BadMsgError int
  | Plain string
  | Wrap string go_error

text \<open>Package-level functions, methods and tables of the repository that the two source
  files use but do not define. They are pure, and the embedding takes them as parameters:
  the conversion of an \<^verbatim>\<open>RpcError\<close> (code and message) to an \<^verbatim>\<open>ErrResponseCode\<close>, the
  unwrapping of native types, the \<^verbatim>\<open>Error()\<close> texts of three error types, the endpoint
  table \<^verbatim>\<open>utils.DcList\<close>, and the string-session codec of package \<^verbatim>\<open>session\<close>
  (\<^verbatim>\<open>NewStringSession(key, hash, dc, host, appID).Encode()\<close> and \<^verbatim>\<open>Decode()\<close>, which
  returns the five fields or an error text).\<close>

record externals =
  RpcErrorToNative :: "int \<Rightarrow> string \<Rightarrow> ErrResponseCode"
  UnwrapNativeTypes :: "tl_object option \<Rightarrow> tl_object option"
  ErrResponseCode_Error :: "ErrResponseCode \<Rightarrow> string"
  ErrCode_Error :: "int \<Rightarrow> string"
  BadMsgError_Error :: "int \<Rightarrow> string"
  DcList :: "(int \<times> string) list"
  StringSession_Encode :: "8 word list \<times> 8 word list \<times> int \<times> string \<times> 32 word \<Rightarrow> string"
  StringSession_Decode ::
    "string \<Rightarrow> string + 8 word list \<times> 8 word list \<times> int \<times> string \<times> 32 word"

fun Error :: "externals \<Rightarrow> go_error \<Rightarrow> string" where
  "Error X Canceled = ''context canceled''"
| "Error X EOF = ''EOF''"
| "Error X (ErrCode c) = ErrCode_Error X c"
| "Error X (ResponseCode r) = ErrResponseCode_Error X r"
| "Error X (BadMsgError c) = BadMsgError_Error X c"
| "Error X (Plain s) = s"
| "Error X (Wrap msg e) = msg @ '': '' @ Error X e"

text \<open>\<^verbatim>\<open>strings.Contains(s, sub)\<close>.\<close>

definition Contains :: "string \<Rightarrow> string \<Rightarrow> bool" where
  "Contains s sub = sublist sub s"

text \<open>\<^verbatim>\<open>errors.Wrap(err, msg)\<close> on a possibly nil error: nil stays nil.\<close>

definition errors_Wrap :: "go_error option \<Rightarrow> string \<Rightarrow> go_error option" where
  "errors_Wrap err msg = map_option (Wrap msg) err"

subsection \<open>Response mailboxes\<close>

text \<open>A response channel: the objects sent to it and not yet received, and whether it has
  been closed. (The Go channels are unbuffered; the queue abstracts from the rendezvous.)\<close>

record mailbox =
  queue :: "tl_object list"
  closed :: bool
  registered :: bool

definition new_mailbox :: mailbox where
  "new_mailbox = \<lparr>queue = [], closed = False, registered = True\<rparr>"

subsection \<open>Observable effects\<close>

datatype action =
    Log string string
  | Write int tl_object
  | WriteFailed int tl_object
  | Sleep "64 word"
  | Cancel nat
  | Dial nat
  | SpawnReader nat
  | Handshake
  | Save
  | CloseMailboxes

subsection \<open>Results\<close>

text \<open>A call returns, panics, or waits for ever on a channel that nobody will serve.\<close>

datatype stop = Panic | Blocked

datatype 'a res = Ret 'a | Stop stop

section \<open>The session engine\<close>

text \<open>The persisted session record (\<^verbatim>\<open>Session\<close>: key, hash, salt, hostname, app id).\<close>

record Session =
  Key :: "8 word list"
  Hash :: "8 word list"
  Salt :: "64 word"
  Hostname :: string
  AppID :: "32 word"

text \<open>The struct \<^verbatim>\<open>MTProto\<close>. \<open>stopRoutines\<close> holds the context its cancel function
  cancels (\<open>None\<close> is the nil function of a value that never connected); \<open>transport\<close>
  is the context the transport was built for (\<open>None\<close> is nil). The fields after
  \<open>serverRequestHandlers\<close> are not in the struct: the number of contexts created so
  far, the contexts cancelled, the record of effects, and the scripts of the environment. \<open>sessionStorage\<close> is the
  content of the session store (\<open>None\<close>: nothing stored). \<open>responseChannels\<close>
  holds every response channel made so far under the message id it was made for; the
  flag \<open>registered\<close> of a channel tells whether the Go map still has it.\<close>

record MTProto =
  Addr :: string
  appID :: "32 word"
  transport :: "nat option"
  stopRoutines :: "nat option"
  memorySession :: bool
  isConnected :: bool
  authKey :: "8 word list"
  authKeyHash :: "8 word list"
  serverSalt :: "64 word"
  encrypted :: bool
  responseChannels :: "(int \<times> mailbox) list"
  lastMessageID :: int
  serviceChannel :: "tl_object list"
  serviceModeActivated :: bool
  sessionStorage :: "Session option"
  serverRequestHandlers :: "(tl_object \<Rightarrow> bool) list"
  contexts :: nat
  cancelled :: "nat list"
  trace :: "action list"
  env_clock :: "(nat \<times> nat) list"
  env_writes :: "string option list"
  env_arrivals :: "tl_object list"
  env_dials :: "string option list"
  env_handshakes :: "(string + 8 word list \<times> 8 word list \<times> 64 word) list"
  env_saves :: "string option list"

definition emit :: "action \<Rightarrow> MTProto \<Rightarrow> MTProto" where
  "emit a m = m\<lparr>trace := trace m @ [a]\<rparr>"

subsection \<open>Parts of the engine that are not in the two source files\<close>

text \<open>Modelled from the spec: \<^verbatim>\<open>next_msg_id\<close> (the id generator is not in the sources).
  The id is built from the clock's seconds (upper 32 bits) and a counter (lower 32 bits,
  the bottom two bits zeroed); it must exceed the id returned before, and where the clock
  does not provide that, the previous id plus 4 is returned. A clock script that has run
  out reads as time 0.\<close>

definition next_msg_id :: "MTProto \<Rightarrow> int \<times> MTProto" where
  "next_msg_id m =
     (let now = (case env_clock m of [] \<Rightarrow> (0, 0) | t # ts \<Rightarrow> t);
          candidate = int (fst now mod 2 ^ 32) * 2 ^ 32 + int (snd now mod 2 ^ 32 div 4 * 4);
          k = (if lastMessageID m < candidate then candidate else lastMessageID m + 4)
      in (k, m\<lparr>lastMessageID := k, env_clock := tl (env_clock m)\<rparr>))"

text \<open>Modelled from the spec: \<^verbatim>\<open>sendPacket\<close> (steps 1 to 3 of the multiplexer's send).
  It asks the session state for a message id, registers a fresh mailbox under it, and
  hands the encoded request to the framer. The write's outcome is the next entry of
  \<open>env_writes\<close> (\<open>Some text\<close>: the write fails with an error of that text; a script
  that has run out: the write succeeds). On success the caller gets the mailbox, named
  by its message id.\<close>

definition sendPacket :: "tl_object \<Rightarrow> MTProto \<Rightarrow> (go_error + int) \<times> MTProto" where
  "sendPacket data m =
     (let (k, m1) = next_msg_id m;
          m2 = m1\<lparr>responseChannels := AList.update k new_mailbox (responseChannels m1),
                  env_writes := tl (env_writes m1)\<rparr>
      in case env_writes m1 of
           Some e # ws \<Rightarrow> (Inl (Plain e), emit (WriteFailed k data) m2)
         | _ \<Rightarrow> (Inr k, emit (Write k data) m2))"

text \<open>Modelled from the spec: \<^verbatim>\<open>SaveSession\<close> (\<^verbatim>\<open>persist()\<close>) writes the record
  \<open>{auth_key, auth_key_hash, server_salt, endpoint, app_id}\<close> to the store. The
  outcome is the next entry of \<open>env_saves\<close>.\<close>

definition SaveSession :: "MTProto \<Rightarrow> go_error option \<times> MTProto" where
  "SaveSession m =
     (case env_saves m of
        Some e # ss \<Rightarrow> (Some (Plain e), m\<lparr>env_saves := ss\<rparr>)
      | _ \<Rightarrow>
          (None, emit Save (m\<lparr>env_saves := tl (env_saves m),
             sessionStorage := Some \<lparr>Key = authKey m, Hash = authKeyHash m, Salt = serverSalt m,
                                     Hostname = Addr m, AppID = appID m\<rparr>\<rparr>)))"

text \<open>Modelled from the spec: \<^verbatim>\<open>makeAuthKey\<close> (the handshake). Its exchange with the
  server is the next entry of \<open>env_handshakes\<close>: an error text, or the key, its hash
  and the first salt, which are written to the session state and persisted unless the
  session is memory-only. With no entry left the server never answers.\<close>

definition makeAuthKey :: "MTProto \<Rightarrow> go_error option res \<times> MTProto" where
  "makeAuthKey m =
     (case env_handshakes m of
        [] \<Rightarrow> (Stop Blocked, m)
      | Inl e # hs \<Rightarrow> (Ret (Some (Plain e)), m\<lparr>env_handshakes := hs\<rparr>)
      | Inr (k, h, salt) # hs \<Rightarrow>
          (let m1 = emit Handshake
                 (m\<lparr>env_handshakes := hs, authKey := k, authKeyHash := h, serverSalt := salt\<rparr>)
           in if memorySession m1 then (Ret None, m1)
              else (case SaveSession m1 of (err, m2) \<Rightarrow> (Ret err, m2))))"

text \<open>Modelled from the spec: \<^verbatim>\<open>responseChannels.Close()\<close> closes all mailboxes.\<close>

definition Close :: "(int \<times> mailbox) list \<Rightarrow> (int \<times> mailbox) list" where
  "Close chans = map (\<lambda>(k, mb). (k, if registered mb then mb\<lparr>closed := True\<rparr> else mb)) chans"

subsection \<open>Connecting\<close>

text \<open>\<^verbatim>\<open>connect\<close>: \<^verbatim>\<open>transport.NewTransport\<close> succeeds or fails as the next entry of
  \<open>env_dials\<close> says. (\<^verbatim>\<open>closeOnCancel\<close> only starts a goroutine that closes the
  transport once the context is cancelled.)\<close>

definition connect :: "nat \<Rightarrow> MTProto \<Rightarrow> go_error option \<times> MTProto" where
  "connect ctx m =
     (case env_dials m of
        Some e # ds \<Rightarrow>
          (Some (Wrap ''creating transport'' (Plain e)), m\<lparr>transport := None, env_dials := ds\<rparr>)
      | _ \<Rightarrow> (None, emit (Dial ctx) (m\<lparr>transport := Some ctx, env_dials := tl (env_dials m)\<rparr>)))"

text \<open>\<^verbatim>\<open>startReadingResponses\<close> starts the receive loop as a goroutine; here only the
  start is recorded. One turn of the loop is \<open>receive_loop_step\<close> below.\<close>

definition startReadingResponses :: "nat \<Rightarrow> MTProto \<Rightarrow> MTProto" where
  "startReadingResponses ctx m = emit (SpawnReader ctx) m"

definition log_if :: "bool \<Rightarrow> string \<Rightarrow> string \<Rightarrow> MTProto \<Rightarrow> MTProto" where
  "log_if b level text m = (if b then emit (Log level text) m else m)"

definition CreateConnection :: "bool \<Rightarrow> MTProto \<Rightarrow> go_error option res \<times> MTProto" where
  "CreateConnection withLog m =
     (let ctx = contexts m;
          m1 = m\<lparr>contexts := Suc ctx, stopRoutines := Some ctx\<rparr>;
          m2 = log_if withLog ''Info'' (''Connecting to '' @ Addr m1 @ '' - [TCPFull]'') m1
      in case connect ctx m2 of
           (Some err, m3) \<Rightarrow> (Ret (Some err), m3)
         | (None, m3) \<Rightarrow>
             (let m4 = m3\<lparr>isConnected := True\<rparr>;
                  m5 = log_if withLog ''Info''
                         (''Connection to '' @ Addr m4 @ '' - [TCPFull] established!'') m4;
                  m6 = startReadingResponses ctx m5
              in if \<not> encrypted m6 then makeAuthKey m6 else (Ret None, m6)))"

definition InvokeRequestWithoutUpdate :: "tl_object \<Rightarrow> MTProto \<Rightarrow> go_error option \<times> MTProto" where
  "InvokeRequestWithoutUpdate data m =
     (case sendPacket data m of
        (Inl err, m1) \<Rightarrow> (Some (Wrap ''sending packet'' err), m1)
      | (Inr resp, m1) \<Rightarrow> (None, m1))"

subsection \<open>Disconnect, Terminate, Reconnect\<close>

text \<open>Calling the nil \<^verbatim>\<open>stopRoutines\<close> of a value that never connected panics.\<close>

definition cancel :: "nat \<Rightarrow> MTProto \<Rightarrow> MTProto" where
  "cancel ctx m = emit (Cancel ctx) (m\<lparr>cancelled := ctx # cancelled m\<rparr>)"

definition Disconnect :: "MTProto \<Rightarrow> go_error option res \<times> MTProto" where
  "Disconnect m =
     (case stopRoutines m of
        None \<Rightarrow> (Stop Panic, m)
      | Some ctx \<Rightarrow> (Ret None, (cancel ctx m)\<lparr>isConnected := False\<rparr>))"

definition Terminate :: "MTProto \<Rightarrow> go_error option res \<times> MTProto" where
  "Terminate m =
     (case stopRoutines m of
        None \<Rightarrow> (Stop Panic, m)
      | Some ctx \<Rightarrow>
          (let m1 = cancel ctx m;
               m2 = emit CloseMailboxes (m1\<lparr>responseChannels := Close (responseChannels m1)\<rparr>);
               m3 = emit (Log ''Info'' (''Disconnecting from '' @ Addr m2 @ '' - [TcpFull]...'')) m2
           in (Ret None, m3\<lparr>isConnected := False\<rparr>)))"

definition Reconnect :: "bool \<Rightarrow> MTProto \<Rightarrow> go_error option res \<times> MTProto" where
  "Reconnect WithLogs m =
     (case Disconnect m of
        (Stop r, m1) \<Rightarrow> (Stop r, m1)
      | (Ret (Some err), m1) \<Rightarrow> (Ret (Some (Wrap ''disconnecting'' err)), m1)
      | (Ret None, m1) \<Rightarrow>
          (let m2 = log_if WithLogs ''Info'' (''Reconnecting to '' @ Addr m1 @ '' - [TcpFull]...'') m1
           in case CreateConnection WithLogs m2 of
                (Stop r, m3) \<Rightarrow> (Stop r, m3)
              | (Ret err, m3) \<Rightarrow>
                  (let m4 = log_if (err = None \<and> WithLogs) ''Info''
                              (''Reconnected to '' @ Addr m3 @ '' - [TcpFull]'') m3;
                       (ping_err, m5) = InvokeRequestWithoutUpdate (PingParams 123456789) m4
                   in (Ret (errors_Wrap err ''recreating connection''), m5))))"

subsection \<open>Awaiting a response\<close>

text \<open>\<^verbatim>\<open>response := <-resp\<close>. The caller takes the oldest object queued in its mailbox. With
  nothing queued, a closed mailbox yields nil at once; an open one yields what the
  receive loop delivers while the caller waits, which is the next entry of
  \<open>env_arrivals\<close>. With no entry left the caller waits for ever.\<close>

definition receive :: "int \<Rightarrow> MTProto \<Rightarrow> tl_object option res \<times> MTProto" where
  "receive resp m =
     (case map_of (responseChannels m) resp of
        None \<Rightarrow> (Stop Blocked, m)
      | Some mb \<Rightarrow>
          (case queue mb of
             x # xs \<Rightarrow>
               (Ret (Some x),
                m\<lparr>responseChannels := AList.update resp (mb\<lparr>queue := xs\<rparr>) (responseChannels m)\<rparr>)
           | [] \<Rightarrow>
               if closed mb then (Ret None, m)
               else (case env_arrivals m of
                       [] \<Rightarrow> (Stop Blocked, m)
                     | x # xs \<Rightarrow> (Ret (Some x), m\<lparr>env_arrivals := xs\<rparr>))))"

subsection \<open>What is left of the environment's script\<close>

text \<open>Every retry of a request consumes a failed write, a queued object or an arrival, so
  the number of those left bounds the retries: under a finite script \<^verbatim>\<open>makeRequest\<close>
  returns, panics or blocks, and the recursion of the Go code is well-founded.\<close>

definition queued :: "(int \<times> mailbox) list \<Rightarrow> nat" where
  "queued chans = sum_list (map (\<lambda>(k, mb). length (queue mb)) chans)"

definition script_left :: "MTProto \<Rightarrow> nat" where
  "script_left m = length (env_writes m) + length (env_arrivals m) + queued (responseChannels m)"

lemma queued_update_le:
  "length (queue mb) = 0 \<Longrightarrow> queued (AList.update k mb chans) \<le> queued chans"
  by (induction chans) (auto simp: queued_def)

lemma queued_update_less:
  "map_of chans k = Some mb \<Longrightarrow> queue mb = x # xs \<Longrightarrow>
   queued (AList.update k (mb\<lparr>queue := xs\<rparr>) chans) < queued chans"
  by (induction chans) (auto simp: queued_def)

lemma emit_fields [simp]:
  "env_writes (emit a m) = env_writes m"
  "env_arrivals (emit a m) = env_arrivals m"
  "responseChannels (emit a m) = responseChannels m"
  by (simp_all add: emit_def)

lemma log_if_fields [simp]:
  "env_writes (log_if b l t m) = env_writes m"
  "env_arrivals (log_if b l t m) = env_arrivals m"
  "responseChannels (log_if b l t m) = responseChannels m"
  by (simp_all add: log_if_def)

lemma next_msg_id_fields [simp]:
  "env_writes (snd (next_msg_id m)) = env_writes m"
  "env_arrivals (snd (next_msg_id m)) = env_arrivals m"
  "responseChannels (snd (next_msg_id m)) = responseChannels m"
  by (simp_all add: next_msg_id_def Let_def)

lemma sendPacket_fields:
  "env_writes (snd (sendPacket data m)) = tl (env_writes m)"
  "env_arrivals (snd (sendPacket data m)) = env_arrivals m"
  "queued (responseChannels (snd (sendPacket data m))) \<le> queued (responseChannels m)"
  by (simp_all add: sendPacket_def Let_def case_prod_unfold new_mailbox_def queued_update_le
       split: list.splits option.splits)

lemma script_left_emit [simp]: "script_left (emit a m) = script_left m"
  by (simp add: script_left_def)

lemma script_left_log_if [simp]: "script_left (log_if b l t m) = script_left m"
  by (simp add: script_left_def)

lemma script_left_sendPacket: "script_left (snd (sendPacket data m)) \<le> script_left m"
  using sendPacket_fields [of data m] by (simp add: script_left_def) 

lemma script_left_sendPacketD:
  "sendPacket data m = (r, m') \<Longrightarrow> script_left m' \<le> script_left m"
  using script_left_sendPacket [of data m] by simp

lemma sendPacket_Inl_writes:
  "sendPacket data m = (Inl err, m1) \<Longrightarrow> env_writes m \<noteq> []"
  by (auto simp: sendPacket_def Let_def case_prod_unfold split: list.splits option.splits)

lemma script_left_sendPacket_Inl:
  assumes "sendPacket data m = (Inl err, m1)"
  shows "script_left m1 < script_left m"
proof -
  have "m1 = snd (sendPacket data m)" using assms by simp
  moreover have "env_writes m \<noteq> []" using assms by (rule sendPacket_Inl_writes)
  ultimately show ?thesis
    using sendPacket_fields [of data m] by (cases "env_writes m") (simp_all add: script_left_def)
qed

lemma script_left_receive:
  "receive resp m = (Ret r, m1) \<Longrightarrow> r \<noteq> None \<Longrightarrow> script_left m1 < script_left m"
  by (auto simp: receive_def script_left_def queued_update_less
           split: option.splits list.splits if_splits)


lemma SaveSession_fields [simp]:
  "env_writes (snd (SaveSession m)) = env_writes m"
  "env_arrivals (snd (SaveSession m)) = env_arrivals m"
  "responseChannels (snd (SaveSession m)) = responseChannels m"
  by (simp_all add: SaveSession_def split: list.splits option.splits)

lemma makeAuthKey_fields [simp]:
  "env_writes (snd (makeAuthKey m)) = env_writes m"
  "env_arrivals (snd (makeAuthKey m)) = env_arrivals m"
  "responseChannels (snd (makeAuthKey m)) = responseChannels m"
  by (simp_all add: makeAuthKey_def Let_def case_prod_unfold
       split: list.splits sum.splits prod.splits)

lemma connect_fields [simp]:
  "env_writes (snd (connect c m)) = env_writes m"
  "env_arrivals (snd (connect c m)) = env_arrivals m"
  "responseChannels (snd (connect c m)) = responseChannels m"
  by (simp_all add: connect_def split: list.splits option.splits)

lemma CreateConnection_fields [simp]:
  "env_writes (snd (CreateConnection b m)) = env_writes m"
  "env_arrivals (snd (CreateConnection b m)) = env_arrivals m"
  "responseChannels (snd (CreateConnection b m)) = responseChannels m"
  by (simp_all add: CreateConnection_def Let_def startReadingResponses_def case_prod_unfold
       split: option.splits)

lemma script_left_CreateConnection [simp]:
  "script_left (snd (CreateConnection b m)) = script_left m"
  by (simp add: script_left_def)

lemma script_left_Disconnect [simp]: "script_left (snd (Disconnect m)) = script_left m"
  by (simp add: Disconnect_def cancel_def script_left_def split: option.splits)

lemma script_left_InvokeRequestWithoutUpdate:
  "script_left (snd (InvokeRequestWithoutUpdate data m)) \<le> script_left m"
  using script_left_sendPacket [of data m]
  by (simp add: InvokeRequestWithoutUpdate_def case_prod_unfold split: sum.splits)

lemma script_left_DisconnectD:
  "Disconnect m = (r, m') \<Longrightarrow> script_left m' = script_left m"
  using script_left_Disconnect [of m] by simp

lemma script_left_CreateConnectionD:
  "CreateConnection b m = (r, m') \<Longrightarrow> script_left m' = script_left m"
  using script_left_CreateConnection [of b m] by simp

lemma script_left_InvokeD:
  "InvokeRequestWithoutUpdate data m = (r, m') \<Longrightarrow> script_left m' \<le> script_left m"
  using script_left_InvokeRequestWithoutUpdate [of data m] by simp

lemma script_left_Reconnect:
  "Reconnect b m = (r, m') \<Longrightarrow> script_left m' \<le> script_left m"
  by (auto simp: Reconnect_def Let_def
           split: res.splits option.splits prod.splits
           dest!: script_left_DisconnectD script_left_CreateConnectionD script_left_InvokeD)

lemma makeRequest_retry_after_reconnect:
  assumes "(Inl err, m1) = sendPacket data m" and "(Ret None, m2) = Reconnect b (emit a m1)"
  shows "script_left m2 < script_left m"
proof -
  have "script_left m1 < script_left m"
    using assms(1) by (rule script_left_sendPacket_Inl [OF sym])
  moreover have "script_left m2 \<le> script_left (emit a m1)"
    using assms(2) by (rule script_left_Reconnect [OF sym])
  ultimately show ?thesis by simp
qed

subsection \<open>The request multiplexer: \<^verbatim>\<open>makeRequest\<close>\<close>

text \<open>\<^verbatim>\<open>makeRequest\<close> is one Go function; \<open>awaitResponse\<close> is its second half, from
  \<^verbatim>\<open>response := <-resp\<close> on, named so that a caller that is already waiting on its mailbox
  can be spoken of. The log texts built with \<^verbatim>\<open>fmt.Sprintf\<close> are cut to their constant
  head. The duration handed to \<^verbatim>\<open>time.Sleep\<close> is \<^verbatim>\<open>time.Duration(n) * time.Second\<close>, a
  product of 64-bit integers in nanoseconds. The type assertion
  \<^verbatim>\<open>realErr.AdditionalInfo.(int)\<close> panics on anything but an \<^verbatim>\<open>int\<close>.\<close>

function makeRequest ::
    "externals \<Rightarrow> tl_object \<Rightarrow> MTProto \<Rightarrow> (go_error + tl_object option) res \<times> MTProto"
  and awaitResponse ::
    "externals \<Rightarrow> tl_object \<Rightarrow> int \<Rightarrow> MTProto \<Rightarrow> (go_error + tl_object option) res \<times> MTProto"
  where
  "makeRequest X data m =
     (case sendPacket data m of
        (Inl err, m1) \<Rightarrow>
          if Contains (Error X err) ''use of closed network connection''
             \<or> Contains (Error X err) ''transport is closed''
          then
            (case Reconnect False
                    (emit (Log ''Info'' (''Connection Pipe Broken. Reconnecting to '' @ Addr m1
                                          @ '' - [TCPFull]'')) m1) of
               (Stop r, m2) \<Rightarrow> (Stop r, m2)
             | (Ret (Some e), m2) \<Rightarrow>
                 (Ret (Inl (Wrap ''reconnecting'' e)),
                  emit (Log ''Error'' (''Reconnecting error: '' @ Error X e)) m2)
             | (Ret None, m2) \<Rightarrow> makeRequest X data m2)
          else (Ret (Inl (Wrap ''sending packet'' err)), m1)
      | (Inr resp, m1) \<Rightarrow> awaitResponse X data resp m1)"
| "awaitResponse X data resp m1 =
     (case receive resp m1 of
        (Stop r, m2) \<Rightarrow> (Stop r, m2)
      | (Ret response, m2) \<Rightarrow>
          (case response of
             Some (RpcError code text) \<Rightarrow>
               (let realErr = RpcErrorToNative X code text
                in if Contains (Message realErr) ''FLOOD_WAIT_'' then
                     (case AdditionalInfo realErr of
                        IntValue n \<Rightarrow>
                          makeRequest X data
                            (emit (Sleep (n * 1000000000))
                               (emit (Log ''Info'' ''Flood wait detected'') m2))
                      | _ \<Rightarrow> (Stop Panic, m2))
                   else (Ret (Inl (ResponseCode realErr)), m2))
           | Some ErrorSessionConfigsChanged \<Rightarrow> makeRequest X data m2
           | _ \<Rightarrow> (Ret (Inr (UnwrapNativeTypes X response)), m2)))"
  by pat_completeness auto
termination
proof (relation "measure (\<lambda>c. case c of
                            Inl (X, data, m) \<Rightarrow> 2 * script_left m + 1
                          | Inr (X, data, resp, m) \<Rightarrow> 2 * script_left m)", goal_cases)
  case 1
  show ?case by simp
next
  case 2
  then show ?case by (simp add: makeRequest_retry_after_reconnect)
next
  case 3
  then show ?case using script_left_sendPacketD [OF sym] by fastforce
next
  case 4
  then show ?case using script_left_receive [OF sym] by fastforce
next
  case 5
  then show ?case using script_left_receive [OF sym] by fastforce
qed

declare makeRequest.simps [simp del] awaitResponse.simps [simp del]

subsection \<open>The record of effects only grows\<close>

lemma trace_emit [simp]: "trace (emit a m) = trace m @ [a]"
  by (simp add: emit_def)

lemma trace_next_msg_id [simp]: "trace (snd (next_msg_id m)) = trace m"
  by (simp add: next_msg_id_def Let_def)




















section \<open>The receive loop\<close>

subsection \<open>Dispatch of a decoded message: \<^verbatim>\<open>processResponse\<close>\<close>

text \<open>The default case of the type switch: the object is offered to the server-request
  handlers in order, the first to claim it wins, and an unclaimed one is logged.\<close>

definition offerToHandlers :: "tl_object \<Rightarrow> MTProto \<Rightarrow> MTProto" where
  "offerToHandlers message m =
     (if list_ex (\<lambda>f. f message) (serverRequestHandlers m) then m
      else emit (Log ''Warn'' ''Unhandled Incoming Update'') m)"

text \<open>Modelled from the spec: \<^verbatim>\<open>writeRPCResponse\<close> delivers the result to the mailbox of the
  request id; a mailbox is delivered at most once, so it leaves the map; a result for an
  unknown id is treated as an unsolicited update and passed to the server-request
  handlers. (A send on a closed channel panics in Go.)\<close>

definition writeRPCResponse :: "int \<Rightarrow> tl_object \<Rightarrow> MTProto \<Rightarrow> go_error option res \<times> MTProto" where
  "writeRPCResponse msgID data m =
     (case map_of (responseChannels m) msgID of
        None \<Rightarrow> (Ret None, offerToHandlers data m)
      | Some mb \<Rightarrow>
          if \<not> registered mb then (Ret None, offerToHandlers data m)
          else if closed mb then (Stop Panic, m)
          else (Ret None,
                m\<lparr>responseChannels :=
                     AList.update msgID (mb\<lparr>queue := queue mb @ [data], registered := False\<rparr>)
                       (responseChannels m)\<rparr>))"

text \<open>The loop over \<^verbatim>\<open>responseChannels.Keys()\<close> of the \<^verbatim>\<open>BadServerSalt\<close> case: every
  channel of the map is sent the sentinel. \<open>None\<close> is the panic of a send on a closed
  channel.\<close>

fun broadcast :: "(int \<times> mailbox) list \<Rightarrow> (int \<times> mailbox) list option" where
  "broadcast [] = Some []"
| "broadcast ((k, v) # rest) =
     (if \<not> registered v then map_option ((#) (k, v)) (broadcast rest)
      else if closed v then None
      else map_option ((#) (k, v\<lparr>queue := queue v @ [ErrorSessionConfigsChanged]\<rparr>))
             (broadcast rest))"

text \<open>Modelled from the spec: \<^verbatim>\<open>MakeRequest\<close>, the exported entry of the multiplexer's
  send, is \<^verbatim>\<open>makeRequest\<close> with no expected types.\<close>

definition MakeRequest ::
  "externals \<Rightarrow> tl_object \<Rightarrow> MTProto \<Rightarrow> (go_error + tl_object option) res \<times> MTProto" where
  "MakeRequest X msg m = makeRequest X msg m"

text \<open>\<open>messageTypeSwitching\<close> is the type switch of \<^verbatim>\<open>processResponse\<close> (the Go label of
  that name): \<open>Ret (Some err)\<close> is a \<^verbatim>\<open>return err\<close> from inside the switch,
  \<open>Ret None\<close> is leaving the switch for the acknowledgement below it.
  \<open>processItems\<close> is the loop over the messages of a container.\<close>

function (sequential)
  messageTypeSwitching :: "externals \<Rightarrow> tl_object \<Rightarrow> MTProto \<Rightarrow> go_error option res \<times> MTProto"
  and processResponse :: "externals \<Rightarrow> common \<Rightarrow> MTProto \<Rightarrow> go_error option res \<times> MTProto"
  and processItems :: "externals \<Rightarrow> common list \<Rightarrow> MTProto \<Rightarrow> go_error option res \<times> MTProto"
  where
  "messageTypeSwitching X (MessageContainer items) m = processItems X items m"
| "messageTypeSwitching X (BadServerSalt NewSalt) m =
     (let m1 = m\<lparr>serverSalt := NewSalt\<rparr>
      in case (if \<not> memorySession m1 then SaveSession m1 else (None, m1)) of
           (Some err, m2) \<Rightarrow> (Ret (Some (Wrap ''saving session'' err)), m2)
         | (None, m2) \<Rightarrow>
             (case Reconnect False m2 of
                (Stop r, m3) \<Rightarrow> (Stop r, m3)
              | (Ret reconnect_err, m3) \<Rightarrow>
                  (case broadcast (responseChannels m3) of
                     None \<Rightarrow> (Stop Panic, m3)
                   | Some chans \<Rightarrow> (Ret None, m3\<lparr>responseChannels := chans\<rparr>))))"
| "messageTypeSwitching X (NewSessionCreated ServerSalt) m =
     (let m1 = m\<lparr>serverSalt := ServerSalt\<rparr>
      in if \<not> memorySession m1 then
           (case SaveSession m1 of
              (Some err, m2) \<Rightarrow>
                (Ret None, emit (Log ''Error'' (Error X (Wrap ''saving session'' err))) m2)
            | (None, m2) \<Rightarrow> (Ret None, m2))
         else (Ret None, m1))"
| "messageTypeSwitching X Pong m = (Ret None, m)"
| "messageTypeSwitching X (MsgsAck ids) m = (Ret None, m)"
| "messageTypeSwitching X (BadMsgNotification code) m = (Ret (Some (BadMsgError code)), m)"
| "messageTypeSwitching X (RpcResult ReqMsgID Obj) m =
     (let obj = (case Obj of GzipPacked v \<Rightarrow> v | _ \<Rightarrow> Obj)
      in case writeRPCResponse ReqMsgID obj m of
           (Ret (Some err), m1) \<Rightarrow> (Ret (Some (Wrap ''writing RPC response'' err)), m1)
         | (r, m1) \<Rightarrow> (r, m1))"
| "messageTypeSwitching X (GzipPacked Obj) m = messageTypeSwitching X Obj m"
| "messageTypeSwitching X message m = (Ret None, offerToHandlers message m)"
| "processResponse X (Common msgID seqNo (Inl e)) m =
     (Ret (Some (Wrap ''unmarshalling response'' (Plain e))), m)"
| "processResponse X (Common msgID seqNo (Inr data)) m =
     (case messageTypeSwitching X data m of
        (Ret None, m1) \<Rightarrow>
          if seqNo AND 1 \<noteq> 0 then
            (case MakeRequest X (MsgsAck [msgID]) m1 of
               (Stop r, m2) \<Rightarrow> (Stop r, m2)
             | (Ret (Inl err), m2) \<Rightarrow> (Ret (Some (Wrap ''sending ack'' err)), m2)
             | (Ret (Inr reply), m2) \<Rightarrow> (Ret None, m2))
          else (Ret None, m1)
      | (r, m1) \<Rightarrow> (r, m1))"
| "processItems X [] m = (Ret None, m)"
| "processItems X (v # vs) m =
     (case processResponse X v m of
        (Ret None, m1) \<Rightarrow> processItems X vs m1
      | (Ret (Some err), m1) \<Rightarrow> (Ret (Some (Wrap ''processing item in container'' err)), m1)
      | (Stop r, m1) \<Rightarrow> (Stop r, m1))"
  by pat_completeness auto
termination
  by (relation "measure (\<lambda>c. case c of
                   Inl (X, obj, m) \<Rightarrow> size obj
                 | Inr (Inl (X, msg, m)) \<Rightarrow> size msg
                 | Inr (Inr (X, msgs, m)) \<Rightarrow> size_list size msgs)") simp_all

subsection \<open>Reading one packet: \<^verbatim>\<open>readMsg\<close>\<close>

text \<open>\<open>rd\<close> is what \<^verbatim>\<open>m.transport.ReadMsg()\<close> returns in this call: an error or a message.
  It is not looked at when the transport is nil.\<close>

definition readMsg :: "externals \<Rightarrow> go_error + common \<Rightarrow> MTProto \<Rightarrow> go_error option res \<times> MTProto" where
  "readMsg X rd m =
     (if transport m = None then
        (Ret (Some (Plain ''must setup connection before reading messages'')), m)
      else
        (case rd of
           Inl err \<Rightarrow>
             (case err of
                ErrCode e \<Rightarrow>
                  (Ret (Some (ResponseCode \<lparr>Code = e, Message = [], Description = [],
                                            AdditionalInfo = NoValue\<rparr>)), m)
              | EOF \<Rightarrow> (Ret (Some err), m)
              | Canceled \<Rightarrow> (Ret (Some err), m)
              | _ \<Rightarrow> (Ret (Some (Wrap ''reading message'' err)), m))
         | Inr response \<Rightarrow>
             if serviceModeActivated m then
               (case GetMsg response of
                  Inl e \<Rightarrow> (Ret (Some (Wrap ''parsing object'' (Plain e))), m)
                | Inr obj \<Rightarrow> (Ret None, m\<lparr>serviceChannel := serviceChannel m @ [obj]\<rparr>))
             else
               (case processResponse X response m of
                  (Ret (Some err), m1) \<Rightarrow> (Ret (Some (Wrap ''Incomming Update'' err)), m1)
                | (r, m1) \<Rightarrow> (r, m1))))"

subsection \<open>One turn of the loop of \<^verbatim>\<open>startReadingResponses\<close>\<close>

datatype turn = Continue | Return

text \<open>The handling of a \<^verbatim>\<open>transport.ErrCode\<close> in the \<^verbatim>\<open>default\<close> branch. It assigns the
  handshake's result to \<^verbatim>\<open>err\<close>, which the branch reads afterwards.\<close>

definition onErrCode :: "go_error \<Rightarrow> MTProto \<Rightarrow> go_error option res \<times> MTProto" where
  "onErrCode err m =
     (case err of
        ErrCode e \<Rightarrow>
          if e = 4294966892 then
            (case makeAuthKey m of
               (Stop r, m1) \<Rightarrow> (Stop r, m1)
             | (Ret (Some err'), m1) \<Rightarrow> (Ret (Some err'), emit (Log ''Error'' ''making auth key'') m1)
             | (Ret None, m1) \<Rightarrow> (Ret None, m1))
          else (Ret (Some err), emit (Log ''Error'' ''Unhandled errorCode'') m)
      | _ \<Rightarrow> (Ret (Some err), m))"

definition reconnect_logged :: "string \<Rightarrow> MTProto \<Rightarrow> unit res \<times> MTProto" where
  "reconnect_logged text m =
     (case Reconnect False m of
        (Stop r, m1) \<Rightarrow> (Stop r, m1)
      | (Ret (Some err), m1) \<Rightarrow> (Ret (), emit (Log ''Error'' text) m1)
      | (Ret None, m1) \<Rightarrow> (Ret (), m1))"

definition receive_loop_turn ::
  "externals \<Rightarrow> nat \<Rightarrow> go_error + common \<Rightarrow> MTProto \<Rightarrow> turn res \<times> MTProto" where
  "receive_loop_turn X ctx rd m =
     (if ctx \<in> set (cancelled m) then (Ret Return, m)
      else if \<not> isConnected m then
        (Ret Return,
         emit (Log ''Warn'' (''Connection is not established with '' @ Addr m @ '' - [TcpFull]'')) m)
      else
        (case readMsg X rd m of
           (Stop r, m1) \<Rightarrow> (Stop r, m1)
         | (Ret None, m1) \<Rightarrow> (Ret Continue, m1)
         | (Ret (Some err), m1) \<Rightarrow>
             if err = Canceled then (Ret Return, m1)
             else if err = EOF then
               (case reconnect_logged ''reconnecting'' m1 of
                  (Stop r, m2) \<Rightarrow> (Stop r, m2)
                | (Ret u, m2) \<Rightarrow> (Ret Return, m2))
             else
               (case onErrCode err m1 of
                  (Stop r, m2) \<Rightarrow> (Stop r, m2)
                | (Ret None, m2) \<Rightarrow> (Stop Panic, m2)
                | (Ret (Some err'), m2) \<Rightarrow>
                    (case reconnect_logged ''reconnecting error'' m2 of
                       (Stop r, m3) \<Rightarrow> (Stop r, m3)
                     | (Ret u, m3) \<Rightarrow>
                         (Ret (if Contains (Error X err') ''required to reconnect!''
                               then Return else Continue), m3)))))"

section \<open>Exporting and importing a session\<close>






section \<open>The pool of exported senders\<close>

text \<open>A \<^verbatim>\<open>*Client\<close>: \<open>None\<close> is nil, \<open>Some i\<close> is the \<open>i\<close>-th \<^verbatim>\<open>Client\<close> value allocated,
  so two pointers are equal exactly when they point to the same value.\<close>

type_synonym client_ptr = "nat option"

text \<open>What the network makes of one \<^verbatim>\<open>CreateExportedSender\<close>: \<^verbatim>\<open>ExportNewSender\<close> fails,
  \<^verbatim>\<open>InitialRequest\<close> fails, or both succeed. (\<^verbatim>\<open>shareAuthWithTimeout\<close> returns nil
  whatever \<^verbatim>\<open>shareAuth\<close> returns.)\<close>

datatype creation = ExportFails string | InitialRequestFails string | Ready

text \<open>The fields of \<^verbatim>\<open>Client\<close> the pool uses. \<open>senders\<close> is \<^verbatim>\<open>exportedSenders.senders\<close>;
  a nil map, a missing key and an empty slice all read as \<open>[]\<close>, which is how the code
  treats them. \<open>allocated\<close> counts the \<^verbatim>\<open>Client\<close> values allocated so far, \<open>clientLog\<close> is
  what the client logs, and \<open>env_creations\<close> scripts the creations to come (a script that
  has run out: the creation succeeds).\<close>

record Client =
  senders :: "int \<Rightarrow> client_ptr list"
  allocated :: nat
  clientLog :: "(string \<times> string) list"
  env_creations :: "creation list"

definition CreateExportedSender :: "int \<Rightarrow> Client \<Rightarrow> (go_error + client_ptr) \<times> Client" where
  "CreateExportedSender dcID c =
     (let c1 = c\<lparr>clientLog := clientLog c @ [(''Debug'', ''creating exported sender for DC '')],
                 env_creations := tl (env_creations c)\<rparr>
      in case env_creations c of
           ExportFails e # rest \<Rightarrow> (Inl (Wrap ''exporting new sender'' (Plain e)), c1)
         | InitialRequestFails e # rest \<Rightarrow>
             (Inl (Wrap ''initial request'' (Plain e)), c1\<lparr>allocated := Suc (allocated c1)\<rparr>)
         | _ \<Rightarrow>
             (Inr (Some (allocated c1)),
              c1\<lparr>allocated := Suc (allocated c1),
                 clientLog := clientLog c1 @ [(''Debug'', ''exported sender for DC '')]\<rparr>))"

definition AuthInvalidError :: string where
  "AuthInvalidError = ''The provided authorization is invalid''"

text \<open>The body of one goroutine of \<^verbatim>\<open>BorrowExportedSenders\<close>, on the slice \<open>returned\<close> and
  the client. After an error of another kind it logs and goes on to append the nil
  pointer it was given.\<close>

definition export_goroutine ::
  "externals \<Rightarrow> int \<Rightarrow> client_ptr list \<times> Client \<Rightarrow> client_ptr list \<times> Client" where
  "export_goroutine X dcID rc =
     (let (returned, c) = rc;
          append = (\<lambda>exportedSender c'.
             (returned @ [exportedSender],
              c'\<lparr>senders := (senders c')(dcID := senders c' dcID @ [exportedSender])\<rparr>))
      in case CreateExportedSender dcID c of
           (Inr exportedSender, c1) \<Rightarrow> append exportedSender c1
         | (Inl err, c1) \<Rightarrow>
             if Contains (Error X err) AuthInvalidError then
               (case CreateExportedSender dcID c1 of
                  (Inl err', c2) \<Rightarrow> (returned, c2)
                | (Inr exportedSender, c2) \<Rightarrow> append exportedSender c2)
             else
               append None
                 (c1\<lparr>clientLog := clientLog c1 @ [(''Error'', ''error creating exported sender: '')]\<rparr>))"

text \<open>The goroutines are started in a loop and awaited together. They are run here one
  after the other: the interleavings of their unsynchronised appends are not modelled.\<close>

primrec export_all ::
  "externals \<Rightarrow> int \<Rightarrow> nat \<Rightarrow> client_ptr list \<times> Client \<Rightarrow> client_ptr list \<times> Client" where
  "export_all X dcID 0 rc = rc"
| "export_all X dcID (Suc i) rc = export_all X dcID i (export_goroutine X dcID rc)"

text \<open>The loop of the branch \<^verbatim>\<open>total < countInt\<close>.\<close>

primrec create_missing ::
  "int \<Rightarrow> nat \<Rightarrow> client_ptr list \<times> Client \<Rightarrow> (go_error + client_ptr list) \<times> Client" where
  "create_missing dcID 0 rc = (Inr (fst rc), snd rc)"
| "create_missing dcID (Suc i) rc =
     (case CreateExportedSender dcID (snd rc) of
        (Inl err, c1) \<Rightarrow> (Inl (Wrap ''creating exported sender'' err), c1)
      | (Inr exportedSender, c1) \<Rightarrow>
          create_missing dcID i
            (fst rc @ [exportedSender],
             c1\<lparr>senders := (senders c1)(dcID := senders c1 dcID @ [exportedSender])\<rparr>))"

text \<open>\<open>count\<close> is the variadic parameter \<^verbatim>\<open>count ...int\<close>.\<close>

definition BorrowExportedSenders ::
  "externals \<Rightarrow> int \<Rightarrow> int list \<Rightarrow> Client \<Rightarrow> (go_error + client_ptr list) \<times> Client" where
  "BorrowExportedSenders X dcID count c =
     (let countInt = (case count of [] \<Rightarrow> 1 | n # ns \<Rightarrow> n)
      in if countInt < 1 then (Inl (Plain ''count must be greater than 0''), c)
         else if countInt > 10 then (Inl (Plain ''count must be less than 10''), c)
         else if senders c dcID = [] then
           (case export_all X dcID (nat countInt) ([], c\<lparr>senders := (senders c)(dcID := [])\<rparr>) of
              (returned, c1) \<Rightarrow> (Inr returned, c1))
         else
           (let total = int (length (senders c dcID))
            in if total < countInt then
                 create_missing dcID (nat (countInt - total)) (senders c dcID, c)
               else (Inr (take (nat countInt) (senders c dcID)), c)))"

section \<open>A string-session codec\<close>

text \<open>Modelled from the spec: the string session is a base-64-like encoding of the record
  with a leading version byte; decoding failures are explicit errors. The codec of
  package \<^verbatim>\<open>session\<close> is not in the sources. The one below is used only to instantiate
  the codec parameter at concrete inputs: the fields are laid out with 16-bit length
  prefixes, the datacenter in one byte and the app id in four, and the bytes are written
  in the URL-safe base-64 alphabet after the version character \<open>1\<close>.\<close>

fun sextets :: "nat list \<Rightarrow> nat list" where
  "sextets (a # b # c # r) =
     [a div 4, a mod 4 * 16 + b div 16, b mod 16 * 4 + c div 64, c mod 64] @ sextets r"
| "sextets [a, b] = [a div 4, a mod 4 * 16 + b div 16, b mod 16 * 4]"
| "sextets [a] = [a div 4, a mod 4 * 16]"
| "sextets [] = []"

fun octets :: "nat list \<Rightarrow> nat list option" where
  "octets (w # x # y # z # r) =
     map_option (\<lambda>bs. [w * 4 + x div 16, x mod 16 * 16 + y div 4, y mod 4 * 64 + z] @ bs)
       (octets r)"
| "octets [w, x, y] = Some [w * 4 + x div 16, x mod 16 * 16 + y div 4]"
| "octets [w, x] = Some [w * 4 + x div 16]"
| "octets [w] = None"
| "octets [] = Some []"

definition sextet_char :: "nat \<Rightarrow> char" where
  "sextet_char i =
     (if i < 26 then char_of (i + 65) else if i < 52 then char_of (i + 71)
      else if i < 62 then char_of (i - 4) else if i = 62 then CHR ''-'' else CHR ''_'')"

definition char_sextet :: "char \<Rightarrow> nat option" where
  "char_sextet c =
     (let n = (of_char c :: nat)
      in if 65 \<le> n \<and> n \<le> 90 then Some (n - 65)
         else if 97 \<le> n \<and> n \<le> 122 then Some (n - 71)
         else if 48 \<le> n \<and> n \<le> 57 then Some (n + 4)
         else if c = CHR ''-'' then Some 62
         else if c = CHR ''_'' then Some 63
         else None)"

definition base64_encode :: "nat list \<Rightarrow> string" where
  "base64_encode bs = map sextet_char (sextets bs)"

definition base64_decode :: "string \<Rightarrow> nat list option" where
  "base64_decode s =
     (case those (map char_sextet s) of None \<Rightarrow> None | Some ss \<Rightarrow> octets ss)"

definition put_field :: "nat list \<Rightarrow> nat list" where
  "put_field bs = [length bs div 256 mod 256, length bs mod 256] @ bs"

fun get_field :: "nat list \<Rightarrow> (nat list \<times> nat list) option" where
  "get_field (h # l # r) =
     (let n = h * 256 + l in if n \<le> length r then Some (take n r, drop n r) else None)"
| "get_field r = None"

definition simple_encode :: "8 word list \<times> 8 word list \<times> int \<times> string \<times> 32 word \<Rightarrow> string" where
  "simple_encode t =
     (case t of (key, hash, dc, host, app) \<Rightarrow>
        CHR ''1'' #
        base64_encode
          (put_field (map unat key) @ put_field (map unat hash) @ put_field (map of_char host)
           @ [nat dc mod 256]
           @ [unat app div 16777216, unat app div 65536 mod 256, unat app div 256 mod 256,
              unat app mod 256]))"

definition simple_decode ::
  "string \<Rightarrow> string + 8 word list \<times> 8 word list \<times> int \<times> string \<times> 32 word" where
  "simple_decode s =
     (case s of
        [] \<Rightarrow> Inl ''empty string session''
      | v # body \<Rightarrow>
          if v \<noteq> CHR ''1'' then Inl ''unknown version''
          else
            (case base64_decode body of
               None \<Rightarrow> Inl ''not in the alphabet''
             | Some bs \<Rightarrow>
                 (case get_field bs of
                    None \<Rightarrow> Inl ''truncated key''
                  | Some (key, r1) \<Rightarrow>
                      (case get_field r1 of
                         None \<Rightarrow> Inl ''truncated hash''
                       | Some (hash, r2) \<Rightarrow>
                           (case get_field r2 of
                              None \<Rightarrow> Inl ''truncated host''
                            | Some (host, r3) \<Rightarrow>
                                (case r3 of
                                   [dc, a, b, c, d] \<Rightarrow>
                                     Inr (map of_nat key, map of_nat hash, int dc,
                                          map char_of host,
                                          of_nat (((a * 256 + b) * 256 + c) * 256 + d))
                                 | _ \<Rightarrow> Inl ''truncated tail''))))))"

section \<open>Concrete inputs\<close>

text \<open>An instance of the parameters: an \<^verbatim>\<open>RpcError\<close> converts to an error of the same code
  and message, with the number after the last underscore of the message as additional
  information when the message ends in digits.\<close>

fun trailing_number :: "string \<Rightarrow> nat option" where
  "trailing_number s =
     (let ds = rev (takeWhile (\<lambda>c. c \<in> set ''0123456789'') (rev s))
      in if ds = [] then None
         else Some (foldl (\<lambda>n c. 10 * n + (of_char c - 48)) 0 ds))"

definition sample_externals :: externals where
  "sample_externals =
     \<lparr>RpcErrorToNative = (\<lambda>code text.
          \<lparr>Code = code, Message = text, Description = text,
           AdditionalInfo = (case trailing_number text of None \<Rightarrow> NoValue
                             | Some n \<Rightarrow> IntValue (of_nat n))\<rparr>),
      UnwrapNativeTypes = (\<lambda>r. r),
      ErrResponseCode_Error = Message,
      ErrCode_Error = (\<lambda>c. ''transport error''),
      BadMsgError_Error = (\<lambda>c. ''bad message''),
      DcList = [(2, ''149.154.167.51:443''), (4, ''149.154.167.91:443'')],
      StringSession_Encode = simple_encode,
      StringSession_Decode = simple_decode\<rparr>"

text \<open>An engine that has connected once (context 0) on an authorised, memory-only session,
  with nothing pending and an empty script.\<close>

definition connected :: MTProto where
  "connected =
     \<lparr>Addr = ''149.154.167.91:443'', appID = 6, transport = Some 0, stopRoutines = Some 0,
      memorySession = True, isConnected = True, authKey = [1, 2, 3], authKeyHash = [9],
      serverSalt = 5, encrypted = True, responseChannels = [], lastMessageID = 0,
      serviceChannel = [], serviceModeActivated = False, sessionStorage = None,
      serverRequestHandlers = [], contexts = 1, cancelled = [], trace = [],
      env_clock = [], env_writes = [], env_arrivals = [], env_dials = [],
      env_handshakes = [], env_saves = []\<rparr>"

text \<open>The same engine with one request pending: its mailbox, registered under id 8.\<close>

definition waiting :: MTProto where
  "waiting = connected\<lparr>responseChannels := [(8, new_mailbox)], lastMessageID := 8\<rparr>"

text \<open>The same engine during the handshake.\<close>

definition handshaking :: MTProto where
  "handshaking = waiting\<lparr>serviceModeActivated := True\<rparr>"





text \<open>A client with an empty pool, and one with a sender for datacenter 2 in its pool and
  two creations that will succeed before one that will not.\<close>

definition fresh_client :: Client where
  "fresh_client = \<lparr>senders = (\<lambda>dc. []), allocated = 0, clientLog = [], env_creations = []\<rparr>"



section \<open>Evaluation at the concrete inputs\<close>

lemmas connection_defs =
  Reconnect_def Disconnect_def Terminate_def cancel_def emit_def CreateConnection_def connect_def
  log_if_def Let_def startReadingResponses_def InvokeRequestWithoutUpdate_def sendPacket_def
  next_msg_id_def errors_Wrap_def new_mailbox_def makeAuthKey_def SaveSession_def





lemma sample_flood [simp]:
  "RpcErrorToNative sample_externals 420 ''FLOOD_WAIT_3''
     = \<lparr>Code = 420, Message = ''FLOOD_WAIT_3'', Description = ''FLOOD_WAIT_3'',
        AdditionalInfo = IntValue 3\<rparr>"
  "RpcErrorToNative sample_externals 420 ''X_FLOOD_WAIT_3''
     = \<lparr>Code = 420, Message = ''X_FLOOD_WAIT_3'', Description = ''X_FLOOD_WAIT_3'',
        AdditionalInfo = IntValue 3\<rparr>"
  "RpcErrorToNative sample_externals 400 ''PEER_ID_INVALID''
     = \<lparr>Code = 400, Message = ''PEER_ID_INVALID'', Description = ''PEER_ID_INVALID'',
        AdditionalInfo = NoValue\<rparr>"
  by (simp_all add: sample_externals_def)

section \<open>The boolean of the two imports\<close>



section \<open>Terminate and Disconnect\<close>








section \<open>Service mode\<close>

text \<open>
  C6. While service mode is active, \<^verbatim>\<open>readMsg\<close> routes every decoded object to the service
  channel, in order of arrival, and changes nothing else of the engine: no mailbox
  receives anything, and what \<^verbatim>\<open>processResponse\<close> would do (salt, session store,
  reconnect, handlers, acknowledgement) does not happen.
\<close>

theorem readMsg_service_mode:
  assumes "serviceModeActivated m"
  shows "(transport m \<noteq> None \<longrightarrow>
            readMsg X (Inr (Common msgID seqNo (Inr obj))) m
              = (Ret None, m\<lparr>serviceChannel := serviceChannel m @ [obj]\<rparr>))
       \<and> (\<forall>rd. (snd (readMsg X rd m))\<lparr>serviceChannel := serviceChannel m\<rparr> = m
               \<and> prefix (serviceChannel m) (serviceChannel (snd (readMsg X rd m))))"
  using assms
  by (auto simp: readMsg_def split: sum.splits go_error.splits)

theorem readMsg_service_mode_witness:
  "serviceModeActivated handshaking \<and> transport handshaking \<noteq> None
   \<and> readMsg sample_externals (Inr (Common 12 1 (Inr (RpcResult 8 Pong)))) handshaking
       = (Ret None, handshaking\<lparr>serviceChannel := [RpcResult 8 Pong]\<rparr>)
   \<and> map_of (responseChannels (snd (readMsg sample_externals
         (Inr (Common 12 1 (Inr (RpcResult 8 Pong)))) handshaking))) 8 = Some new_mailbox"
proof -
  have s: "serviceModeActivated handshaking" "transport handshaking \<noteq> None"
    "serviceChannel handshaking = []" "map_of (responseChannels handshaking) 8 = Some new_mailbox"
    by (simp_all add: handshaking_def waiting_def connected_def)
  from readMsg_service_mode [OF s(1), of sample_externals 12 1 "RpcResult 8 Pong"] s
  show ?thesis by simp
qed

text \<open>Outside service mode the same result is delivered to the mailbox of request 8.\<close>

lemma readMsg_outside_service_mode:
  "map_of (responseChannels (snd (readMsg sample_externals
         (Inr (Common 12 0 (Inr (RpcResult 8 Pong)))) waiting))) 8
     = Some (new_mailbox\<lparr>queue := [Pong], registered := False\<rparr>)"
  by (simp add: readMsg_def waiting_def connected_def writeRPCResponse_def new_mailbox_def)

section \<open>Transport error codes in the receive loop\<close>

text \<open>\<^verbatim>\<open>readMsg\<close> never returns a \<^verbatim>\<open>transport.ErrCode\<close>: it turns one into an
  \<^verbatim>\<open>*ErrResponseCode\<close>. So the type assertion \<^verbatim>\<open>err.(transport.ErrCode)\<close> of the loop never
  holds for what \<^verbatim>\<open>readMsg\<close> returned.\<close>

lemma readMsg_never_ErrCode: "fst (readMsg X rd m) \<noteq> Ret (Some (ErrCode c))"
  by (auto simp: readMsg_def split: sum.splits go_error.splits prod.splits res.splits option.splits)

text \<open>
  C5. A turn of the receive loop whose read fails with the transport error code
  4294966892, on a connected engine whose handshake would succeed if it were run: the
  handshake is not run and nothing is logged; the loop reconnects (cancel, dial, a new
  reader, the warm-up ping) and goes on.
\<close>

theorem receive_loop_turn_ErrCode_404:
  "receive_loop_turn sample_externals 0 (Inl (ErrCode 4294966892))
       (connected\<lparr>env_handshakes := [Inr ([1], [2], 3)]\<rparr>)
     = (Ret Continue,
        connected\<lparr>env_handshakes := [Inr ([1], [2], 3)], isConnected := True,
                   stopRoutines := Some 1, transport := Some 1, contexts := 2, cancelled := [0],
                   lastMessageID := 4, responseChannels := [(4, new_mailbox)],
                   trace := [Cancel 0, Dial 1, SpawnReader 1, Write 4 (PingParams 123456789)]\<rparr>)"
  by (simp add: receive_loop_turn_def readMsg_def onErrCode_def reconnect_logged_def
        connected_def connection_defs sample_externals_def Contains_def)

section \<open>Acknowledgements\<close>




section \<open>RPC errors and flood waits\<close>




lemma lastMessageID_emit [simp]: "lastMessageID (emit a m) = lastMessageID m"
  by (simp add: emit_def)









section \<open>A write on a closed connection\<close>

text \<open>\<open>aside data\<close> holds of the effects that are neither the cancelling of a context nor
  a write, successful or not, of the object \<open>data\<close>; \<open>quietly data t m\<close> says that the
  effects of \<open>m\<close> are \<open>t\<close> followed by such effects only.\<close>

definition aside :: "tl_object \<Rightarrow> action \<Rightarrow> bool" where
  "aside data a =
     (case a of Cancel c \<Rightarrow> False | Write k d \<Rightarrow> d \<noteq> data | WriteFailed k d \<Rightarrow> d \<noteq> data
      | _ \<Rightarrow> True)"

definition quietly :: "tl_object \<Rightarrow> action list \<Rightarrow> MTProto \<Rightarrow> bool" where
  "quietly data t m = (\<exists>u. trace m = t @ u \<and> list_all (aside data) u)"



lemma quietly_update [simp]:
  "quietly data t (m\<lparr>isConnected := b\<rparr>) = quietly data t m"
  "quietly data t (m\<lparr>contexts := c, stopRoutines := s\<rparr>) = quietly data t m"
  by (simp_all add: quietly_def)


lemma quietly_SaveSession:
  "SaveSession m = (r, m1) \<Longrightarrow> quietly data t m \<Longrightarrow> quietly data t m1"
  by (auto simp: SaveSession_def quietly_def aside_def split: list.splits option.splits)










section \<open>A changed server salt\<close>




lemma emit_frame [simp]:
  "env_clock (emit a m) = env_clock m"
  "serverSalt (emit a m) = serverSalt m"
  "sessionStorage (emit a m) = sessionStorage m"
  "cancelled (emit a m) = cancelled m"
  "encrypted (emit a m) = encrypted m"
  "memorySession (emit a m) = memorySession m"
  "stopRoutines (emit a m) = stopRoutines m"
  "Addr (emit a m) = Addr m"
  by (simp_all add: emit_def)

lemma log_if_frame [simp]:
  "lastMessageID (log_if b l t m) = lastMessageID m"
  "env_clock (log_if b l t m) = env_clock m"
  "serverSalt (log_if b l t m) = serverSalt m"
  "sessionStorage (log_if b l t m) = sessionStorage m"
  "cancelled (log_if b l t m) = cancelled m"
  "encrypted (log_if b l t m) = encrypted m"
  "memorySession (log_if b l t m) = memorySession m"
  "stopRoutines (log_if b l t m) = stopRoutines m"
  "Addr (log_if b l t m) = Addr m"
  by (simp_all add: log_if_def)

lemma cancel_frame [simp]:
  "responseChannels (cancel c m) = responseChannels m"
  "lastMessageID (cancel c m) = lastMessageID m"
  "env_clock (cancel c m) = env_clock m"
  "serverSalt (cancel c m) = serverSalt m"
  "sessionStorage (cancel c m) = sessionStorage m"
  "cancelled (cancel c m) = c # cancelled m"
  "encrypted (cancel c m) = encrypted m"
  by (simp_all add: cancel_def)















section \<open>Borrowing exported senders\<close>


text \<open>The pointers of \<open>k\<close> values allocated in a row.\<close>

definition fresh_ptrs :: "nat \<Rightarrow> nat \<Rightarrow> client_ptr list" where
  "fresh_ptrs a k = map Some [a..<a + k]"

lemma fresh_ptrs_0 [simp]: "fresh_ptrs a 0 = []"
  by (simp add: fresh_ptrs_def)

lemma fresh_ptrs_Suc [simp]: "fresh_ptrs a (Suc k) = Some a # fresh_ptrs (Suc a) k"
  by (simp add: fresh_ptrs_def upt_conv_Cons)

lemma fresh_ptrs_props [simp]:
  "length (fresh_ptrs a k) = k"
  "distinct (fresh_ptrs a k)"
  "None \<notin> set (fresh_ptrs a k)"
  by (auto simp: fresh_ptrs_def distinct_map inj_on_def)

lemma fresh_ptrs_set: "Some i \<in> set (fresh_ptrs a k) \<longleftrightarrow> a \<le> i \<and> i < a + k"
  by (auto simp: fresh_ptrs_def)











text \<open>When a creation fails with an error of another kind, the goroutine logs it and
  appends the nil pointer all the same.\<close>

lemma BorrowExportedSenders_nil:
  "fst (BorrowExportedSenders sample_externals 2 [1]
          (fresh_client\<lparr>env_creations := [ExportFails ''timeout'']\<rparr>)) = Inr [None]"
  by (simp add: BorrowExportedSenders_def fresh_client_def CreateExportedSender_def Let_def
        export_goroutine_def Contains_def AuthInvalidError_def sublist_code(3))

section \<open>The string session\<close>




end
